theory Spec2Isabelle
  imports Main
begin

section \<open>Data model\<close>

text \<open>
  The tiered request dispatcher of \<^verbatim>\<open>src/server/services/openrouter.service.ts\<close> and the
  chat and vision handlers of \<^verbatim>\<open>src/server/routes/ai.routes.ts\<close>, as HOL functions.

  A thrown JavaScript \<^verbatim>\<open>Error\<close> is a value \<open>Error message\<close> on the left of a sum.
  Calls to the remote gateway are the only effects that matter here: the outcome of each call
  is read from an environment, and every function returns, next to its result, the list of
  calls it issued, in order. Console logging is left out.
\<close>

datatype error = Error string

fun message :: "error \<Rightarrow> string" where
  "message (Error m) = m"

text \<open>
  Message content is \<^verbatim>\<open>string | any[]\<close>: plain text, or the typed parts the vision handler
  builds (\<^verbatim>\<open>{type: 'text', text}\<close> and \<^verbatim>\<open>{type: 'image_url', image_url: {url}}\<close>).
  A message is \<^verbatim>\<open>{role, content}\<close>.
\<close>

datatype part = TextPart string | ImageUrlPart string

datatype content_value = Text string | Parts "part list"

datatype chat_message = Message string content_value

text \<open>
  A model reference as it exists at run time. Looking a key up in an object literal also
  finds the members the literal inherits from \<^verbatim>\<open>Object.prototype\<close>; such a member is a
  function or an object, not a model identifier.
\<close>

datatype js_model = ModelId string | Inherited string

record AIRequest =
  messages :: "chat_message list"
  tier :: string
  stream :: "bool option"
  maxTokens :: "int option"

record AIResponse =
  content :: string
  model :: js_model
  tokensUsed :: int
  promptTokens :: int
  completionTokens :: int

subsection \<open>Truthiness\<close>

text \<open>
  \<^verbatim>\<open>a || b\<close> yields \<open>b\<close> when \<open>a\<close> is \<^verbatim>\<open>undefined\<close>, \<^verbatim>\<open>null\<close>, the empty string
  or zero. An optional field is \<open>None\<close> when it is \<^verbatim>\<open>undefined\<close> or \<^verbatim>\<open>null\<close>.
\<close>

fun truthy_string :: "string option \<Rightarrow> bool" where
  "truthy_string None = False"
| "truthy_string (Some s) = (s \<noteq> [])"

fun truthy_number :: "int option \<Rightarrow> bool" where
  "truthy_number None = False"
| "truthy_number (Some n) = (n \<noteq> 0)"

fun truthy_model :: "js_model \<Rightarrow> bool" where
  "truthy_model (ModelId s) = (s \<noteq> [])"
| "truthy_model (Inherited k) = True"

definition or_string :: "string option \<Rightarrow> string \<Rightarrow> string" where
  "or_string a b = (if truthy_string a then the a else b)"

definition or_number :: "int option \<Rightarrow> int \<Rightarrow> int" where
  "or_number a b = (if truthy_number a then the a else b)"

text \<open>
  The spread \<^verbatim>\<open>...(request.maxTokens && { maxTokens: request.maxTokens })\<close> adds the field
  only when the bound is truthy.
\<close>

definition spread_maxTokens :: "int option \<Rightarrow> int option" where
  "spread_maxTokens m = (if truthy_number m then m else None)"

section \<open>Tier policy\<close>

definition TIER_MODELS :: "(string \<times> string) list" where
  "TIER_MODELS =
    [(''free'', ''mistralai/mistral-7b-instruct:free''),
     (''premium'', ''openai/gpt-4o-mini''),
     (''ultra-premium'', ''anthropic/claude-3.5-sonnet''),
     (''enterprise'', ''anthropic/claude-3.7-sonnet'')]"

definition FREE_MODEL_FALLBACKS :: "string list" where
  "FREE_MODEL_FALLBACKS =
    [''mistralai/mistral-7b-instruct:free'',
     ''google/gemini-2.0-flash-exp:free'',
     ''nousresearch/hermes-3-llama-3.1-405b:free'',
     ''microsoft/phi-3-mini-128k-instruct:free'']"

text \<open>
  The property names every object literal inherits from \<^verbatim>\<open>Object.prototype\<close>. Each of
  them reads as a function (\<^verbatim>\<open>__proto__\<close> as the prototype object), so each is truthy.
\<close>

definition Object_prototype :: "string list" where
  "Object_prototype =
    [''constructor'', ''__proto__'', ''hasOwnProperty'', ''isPrototypeOf'',
     ''propertyIsEnumerable'', ''toLocaleString'', ''toString'', ''valueOf'',
     ''__defineGetter__'', ''__defineSetter__'', ''__lookupGetter__'', ''__lookupSetter__'']"

text \<open>
  \<^verbatim>\<open>obj[key]\<close> on an object literal whose own properties are the pairs of \<open>obj\<close>: the own
  property if there is one, else the inherited member, else \<^verbatim>\<open>undefined\<close>.
\<close>

definition get_property :: "(string \<times> string) list \<Rightarrow> string \<Rightarrow> js_model option" where
  "get_property obj key =
    (case map_of obj key of
       Some v \<Rightarrow> Some (ModelId v)
     | None \<Rightarrow> if key \<in> set Object_prototype then Some (Inherited key) else None)"

definition or_model :: "js_model option \<Rightarrow> js_model \<Rightarrow> js_model" where
  "or_model a b = (case a of None \<Rightarrow> b | Some v \<Rightarrow> if truthy_model v then v else b)"

text \<open>\<^verbatim>\<open>TIER_MODELS[tier as keyof typeof TIER_MODELS] || TIER_MODELS.free\<close>\<close>

definition getModelForTier :: "string \<Rightarrow> js_model" where
  "getModelForTier t =
    or_model (get_property TIER_MODELS t) (ModelId ''mistralai/mistral-7b-instruct:free'')"

section \<open>The remote gateway\<close>

text \<open>
  A completion as the code reads it, from the client library (\<^verbatim>\<open>response\<close>) or parsed
  from the body of a direct call (\<^verbatim>\<open>data\<close>, \<^verbatim>\<open>errorData\<close>): \<^verbatim>\<open>choices\<close>,
  \<^verbatim>\<open>model\<close>, \<^verbatim>\<open>usage\<close> and \<^verbatim>\<open>error?.message\<close>. Of a choice only
  \<^verbatim>\<open>choice.message.content\<close> is read; a choice may lack \<^verbatim>\<open>message\<close>, and a message may
  lack \<^verbatim>\<open>content\<close>. The client library spells the counters \<^verbatim>\<open>totalTokens\<close>,
  \<^verbatim>\<open>promptTokens\<close>, \<^verbatim>\<open>completionTokens\<close>.
\<close>

record usage_counters =
  total_tokens :: "int option"
  prompt_tokens :: "int option"
  completion_tokens :: "int option"

datatype choice = Choice_without_message | Choice_message "string option"

record completion =
  choices :: "choice list option"
  data_model :: "string option"
  usage :: "usage_counters option"
  error_message :: "string option"

text \<open>The argument of \<^verbatim>\<open>client.chat.send\<close>, and the \<^verbatim>\<open>requestBody\<close> of a direct call.\<close>

record chat_params =
  params_model :: js_model
  params_messages :: "chat_message list"
  params_stream :: bool
  params_maxTokens :: "int option"

record requestBody =
  body_model :: js_model
  body_messages :: "chat_message list"
  max_tokens :: "int option"

datatype call = SdkSend chat_params | Fetch requestBody

text \<open>
  What a call comes back with. \<^verbatim>\<open>chat.send\<close> throws or returns a completion;
  \<^verbatim>\<open>fetch\<close> followed by \<^verbatim>\<open>response.text()\<close> throws or gives a status and a body text.
  A provider stream is the chunks it yields, each reduced to
  \<^verbatim>\<open>chunk.choices?.[0]?.delta?.content\<close>, and the way it stops: exhausted, or throwing.
\<close>

datatype sdk_outcome = SdkThrows string | SdkReturns completion

datatype fetch_outcome = FetchThrows string | FetchResponse nat string

datatype stream_end = StreamEnds | StreamThrows string

datatype stream_outcome = OpenThrows string | OpenReturns "string option list" stream_end

text \<open>
  The environment of one dispatch. \<open>fetch env i body\<close> is the outcome of the direct call
  with \<open>body\<close> when \<open>i\<close> direct calls went before it, so the gateway may answer the same
  request differently over time. \<open>JSON_parse\<close> is \<^verbatim>\<open>JSON.parse\<close>, with the message of the
  \<^verbatim>\<open>SyntaxError\<close> on the left. \<open>client\<close> says whether \<^verbatim>\<open>this.client\<close> has been
  constructed by an earlier dispatch. \<open>Date_now k\<close> is the \<open>k\<close>-th clock reading.
\<close>

record env =
  OPENROUTER_API_KEY :: "string option"
  client :: bool
  chat_send :: "chat_params \<Rightarrow> sdk_outcome"
  chat_send_stream :: "chat_params \<Rightarrow> stream_outcome"
  fetch :: "nat \<Rightarrow> requestBody \<Rightarrow> fetch_outcome"
  JSON_parse :: "string \<Rightarrow> string + completion"
  Date_now :: "nat \<Rightarrow> int"

text \<open>
  Messages of the \<^verbatim>\<open>TypeError\<close> that reading a property of \<^verbatim>\<open>undefined\<close> throws.
\<close>

definition TypeError_reading :: "string \<Rightarrow> string" where
  "TypeError_reading p = ''Cannot read properties of undefined (reading '' @ [CHR 39] @ p @ [CHR 39] @ '')''"

text \<open>
  \<^verbatim>\<open>getClient\<close>: a client not yet constructed needs the credential. That the constructed
  client is kept for later dispatches does not show within one dispatch, which asks once.
\<close>

definition getClient :: "env \<Rightarrow> error + unit" where
  "getClient e =
    (if \<not> client e then
       (if \<not> truthy_string (OPENROUTER_API_KEY e)
        then Inl (Error ''OPENROUTER_API_KEY is required. Please set it in your .env file.'')
        else Inr ())
     else Inr ())"

section \<open>Normalization\<close>

text \<open>\<^verbatim>\<open>data.model || currentModel\<close> and \<^verbatim>\<open>usage?.total_tokens || 0\<close>.\<close>

definition or_reported :: "string option \<Rightarrow> js_model \<Rightarrow> js_model" where
  "or_reported a b = (if truthy_string a then ModelId (the a) else b)"

definition counter :: "usage_counters option \<Rightarrow> (usage_counters \<Rightarrow> int option) \<Rightarrow> int" where
  "counter u field = or_number (case u of None \<Rightarrow> None | Some c \<Rightarrow> field c) 0"

text \<open>
  Lines 64-73 of \<^verbatim>\<open>chatCompletion\<close>, repeated at lines 237-246 of
  \<^verbatim>\<open>multimodalAnalysis\<close>: \<^verbatim>\<open>response.choices[0]\<close>, then the result object. The
  reads of \<^verbatim>\<open>choices[0]\<close>, \<^verbatim>\<open>choice.message\<close> and \<^verbatim>\<open>message.content\<close> are unguarded.
\<close>

definition from_response :: "js_model \<Rightarrow> completion \<Rightarrow> error + AIResponse" where
  "from_response m response =
    (case choices response of
       None \<Rightarrow> Inl (Error (TypeError_reading ''0''))
     | Some [] \<Rightarrow> Inl (Error (TypeError_reading ''message''))
     | Some (Choice_without_message # _) \<Rightarrow> Inl (Error (TypeError_reading ''content''))
     | Some (Choice_message c # _) \<Rightarrow>
         Inr \<lparr>content = or_string c [],
              model = or_reported (data_model response) m,
              tokensUsed = counter (usage response) total_tokens,
              promptTokens = counter (usage response) prompt_tokens,
              completionTokens = counter (usage response) completion_tokens\<rparr>)"

section \<open>Dispatcher\<close>

subsection \<open>Secondary path: \<^verbatim>\<open>chatCompletionFallback\<close>\<close>

text \<open>Decimal digits of a number, for \<^verbatim>\<open>${response.status}\<close>.\<close>

function string_of_nat :: "nat \<Rightarrow> string" where
  "string_of_nat n =
    (if n < 10 then [''0123456789'' ! n]
     else string_of_nat (n div 10) @ [''0123456789'' ! (n mod 10)])"
  by pat_completeness auto
termination
  by (relation "measure id") auto

definition ok :: "nat \<Rightarrow> bool" where
  "ok status = (200 \<le> status \<and> status \<le> 299)"

text \<open>\<^verbatim>\<open>const modelsToTry = isFree ? FREE_MODEL_FALLBACKS : [model]\<close>\<close>

definition modelsToTry :: "AIRequest \<Rightarrow> js_model list" where
  "modelsToTry request =
    (let model = getModelForTier (tier request);
         isFree = (tier request = ''free'')
     in if isFree then map ModelId FREE_MODEL_FALLBACKS else [model])"

definition requestBody :: "AIRequest \<Rightarrow> js_model \<Rightarrow> requestBody" where
  "requestBody request currentModel =
    \<lparr>body_model = currentModel,
     body_messages = messages request,
     max_tokens = spread_maxTokens (maxTokens request)\<rparr>"

text \<open>
  The body of the \<^verbatim>\<open>try\<close> in iteration \<open>i\<close>: it returns from the function, reaches
  \<^verbatim>\<open>continue\<close>, or throws into the \<^verbatim>\<open>catch\<close>. \<open>n\<close> is \<^verbatim>\<open>modelsToTry.length\<close>, which is
  positive inside the loop.
\<close>

datatype attempt_result = Returned AIResponse | Continued | Thrown string

definition attempt :: "env \<Rightarrow> nat \<Rightarrow> nat \<Rightarrow> js_model \<Rightarrow> requestBody \<Rightarrow> attempt_result" where
  "attempt e n i currentModel body =
    (case fetch e i body of
       FetchThrows m \<Rightarrow> Thrown m
     | FetchResponse status responseText \<Rightarrow>
         if \<not> ok status then
           (case JSON_parse e responseText of
              Inl m \<Rightarrow> Thrown m
            | Inr errorData \<Rightarrow>
                let is429 = (status = 429) in
                if is429 \<and> i < n - 1 then Continued
                else Thrown (''OpenRouter API error ('' @ string_of_nat status @ ''): ''
                             @ or_string (error_message errorData) responseText))
         else
           (case JSON_parse e responseText of
              Inl m \<Rightarrow> Thrown m
            | Inr data \<Rightarrow>
                (case choices data of
                   None \<Rightarrow> Thrown ''Invalid response from OpenRouter''
                 | Some [] \<Rightarrow> Thrown ''Invalid response from OpenRouter''
                 | Some (Choice_without_message # _) \<Rightarrow> Thrown (TypeError_reading ''content'')
                 | Some (Choice_message c # _) \<Rightarrow>
                     Returned
                       \<lparr>content = or_string c [],
                        model = or_reported (data_model data) currentModel,
                        tokensUsed = counter (usage data) total_tokens,
                        promptTokens = counter (usage data) prompt_tokens,
                        completionTokens = counter (usage data) completion_tokens\<rparr>)))"

text \<open>
  The \<^verbatim>\<open>for\<close> loop from index \<open>i\<close> on, with the \<^verbatim>\<open>catch\<close> and the \<^verbatim>\<open>throw\<close> after the
  loop. The second component lists the request bodies sent, in order.
\<close>

function tryModels ::
  "env \<Rightarrow> AIRequest \<Rightarrow> js_model list \<Rightarrow> nat \<Rightarrow> (error + AIResponse) \<times> requestBody list" where
  "tryModels e request ms i =
    (if i < length ms then
       (let currentModel = ms ! i;
            body = requestBody request currentModel
        in case attempt e (length ms) i currentModel body of
             Returned r \<Rightarrow> (Inr r, [body])
           | Continued \<Rightarrow>
               (let (r, sent) = tryModels e request ms (i + 1) in (r, body # sent))
           | Thrown m \<Rightarrow>
               if i = length ms - 1 then (Inl (Error (''AI request failed: '' @ m)), [body])
               else (let (r, sent) = tryModels e request ms (i + 1) in (r, body # sent)))
     else (Inl (Error ''AI request failed: All models exhausted''), []))"
  by pat_completeness auto
termination
  by (relation "measure (\<lambda>(e, request, ms, i). length ms - i)") auto

declare tryModels.simps [simp del]

definition chatCompletionFallback ::
  "env \<Rightarrow> AIRequest \<Rightarrow> (error + AIResponse) \<times> requestBody list" where
  "chatCompletionFallback e request = tryModels e request (modelsToTry request) 0"

subsection \<open>Primary path and \<^verbatim>\<open>chatCompletion\<close>\<close>

definition chat_params :: "AIRequest \<Rightarrow> chat_params" where
  "chat_params request =
    \<lparr>params_model = getModelForTier (tier request),
     params_messages = messages request,
     params_stream = False,
     params_maxTokens = spread_maxTokens (maxTokens request)\<rparr>"

text \<open>The \<^verbatim>\<open>try\<close> block of \<^verbatim>\<open>chatCompletion\<close>: the result, or what it throws.\<close>

definition chatCompletion_try :: "env \<Rightarrow> AIRequest \<Rightarrow> (error + AIResponse) \<times> call list" where
  "chatCompletion_try e request =
    (let model = getModelForTier (tier request) in
     case getClient e of
       Inl err \<Rightarrow> (Inl err, [])
     | Inr _ \<Rightarrow>
         (case chat_send e (chat_params request) of
            SdkThrows m \<Rightarrow> (Inl (Error m), [SdkSend (chat_params request)])
          | SdkReturns response \<Rightarrow>
              (from_response model response, [SdkSend (chat_params request)])))"

definition chatCompletion :: "env \<Rightarrow> AIRequest \<Rightarrow> (error + AIResponse) \<times> call list" where
  "chatCompletion e request =
    (case chatCompletion_try e request of
       (Inr r, calls) \<Rightarrow> (Inr r, calls)
     | (Inl err, calls) \<Rightarrow>
         (let (r, sent) = chatCompletionFallback e request in (r, calls @ map Fetch sent)))"

subsection \<open>Capabilities\<close>

text \<open>
  Each capability prepends its system message and fixes its default bound; the request it
  hands to \<^verbatim>\<open>chatCompletion\<close> is
  \<^verbatim>\<open>{...request, messages: messagesWithSystem, maxTokens: request.maxTokens || 4000}\<close>.
\<close>

definition code_request :: "AIRequest \<Rightarrow> AIRequest" where
  "code_request request =
    (let systemMessage = Message ''system''
           (Text ''You are an expert programmer. Generate clean, efficient, and well-documented code based on the user request. Include comments and follow best practices.'');
         messagesWithSystem = systemMessage # messages request
     in request\<lparr>messages := messagesWithSystem,
                 maxTokens := Some (or_number (maxTokens request) 4000)\<rparr>)"

definition codeGeneration :: "env \<Rightarrow> AIRequest \<Rightarrow> (error + AIResponse) \<times> call list" where
  "codeGeneration e request = chatCompletion e (code_request request)"

definition analysis_request :: "AIRequest \<Rightarrow> AIRequest" where
  "analysis_request request =
    (let systemMessage = Message ''system''
           (Text ''You are an expert text analyst. Analyze the provided text and provide insights, summaries, or answer questions about it. Be concise and accurate.'');
         messagesWithSystem = systemMessage # messages request
     in request\<lparr>messages := messagesWithSystem,
                 maxTokens := Some (or_number (maxTokens request) 2000)\<rparr>)"

definition textAnalysis :: "env \<Rightarrow> AIRequest \<Rightarrow> (error + AIResponse) \<times> call list" where
  "textAnalysis e request = chatCompletion e (analysis_request request)"

definition generation_request :: "AIRequest \<Rightarrow> AIRequest" where
  "generation_request request =
    (let systemMessage = Message ''system''
           (Text ''You are a creative content writer. Generate high-quality, engaging content based on user requirements. Be creative, original, and maintain the requested tone and style.'');
         messagesWithSystem = systemMessage # messages request
     in request\<lparr>messages := messagesWithSystem,
                 maxTokens := Some (or_number (maxTokens request) 3000)\<rparr>)"

definition contentGeneration :: "env \<Rightarrow> AIRequest \<Rightarrow> (error + AIResponse) \<times> call list" where
  "contentGeneration e request = chatCompletion e (generation_request request)"

definition visionModels :: "(string \<times> string) list" where
  "visionModels =
    [(''free'', ''google/gemini-2.0-flash-exp:free''),
     (''premium'', ''openai/gpt-4o-mini''),
     (''ultra-premium'', ''anthropic/claude-3.5-sonnet''),
     (''enterprise'', ''anthropic/claude-3.7-sonnet'')]"

definition vision_params :: "AIRequest \<Rightarrow> chat_params" where
  "vision_params request =
    \<lparr>params_model = or_model (get_property visionModels (tier request))
                              (getModelForTier (tier request)),
     params_messages = messages request,
     params_stream = False,
     params_maxTokens = Some (or_number (maxTokens request) 2000)\<rparr>"

text \<open>
  \<^verbatim>\<open>multimodalAnalysis\<close>: the same \<^verbatim>\<open>try\<close> as \<^verbatim>\<open>chatCompletion\<close>, on the vision model;
  its \<^verbatim>\<open>catch\<close> throws again.
\<close>

definition multimodalAnalysis :: "env \<Rightarrow> AIRequest \<Rightarrow> (error + AIResponse) \<times> call list" where
  "multimodalAnalysis e request =
    (let model = getModelForTier (tier request);
         failed = (\<lambda>err. Inl (Error (''Multimodal analysis failed: '' @ message err)))
     in case getClient e of
          Inl err \<Rightarrow> (failed err, [])
        | Inr _ \<Rightarrow>
            (case chat_send e (vision_params request) of
               SdkThrows m \<Rightarrow> (failed (Error m), [SdkSend (vision_params request)])
             | SdkReturns response \<Rightarrow>
                 (case from_response model response of
                    Inl err \<Rightarrow> (failed err, [SdkSend (vision_params request)])
                  | Inr r \<Rightarrow> (Inr r, [SdkSend (vision_params request)]))))"

subsection \<open>Streaming\<close>

definition stream_params :: "AIRequest \<Rightarrow> chat_params" where
  "stream_params request =
    \<lparr>params_model = getModelForTier (tier request),
     params_messages = messages request,
     params_stream = True,
     params_maxTokens = spread_maxTokens (maxTokens request)\<rparr>"

definition streamChatCompletion ::
  "env \<Rightarrow> AIRequest \<Rightarrow> (error + string option list \<times> stream_end) \<times> call list" where
  "streamChatCompletion e request =
    (let failed = (\<lambda>err. Inl (Error (''AI streaming failed: '' @ message err)))
     in case getClient e of
          Inl err \<Rightarrow> (failed err, [])
        | Inr _ \<Rightarrow>
            (case chat_send_stream e (stream_params request) of
               OpenThrows m \<Rightarrow> (failed (Error m), [SdkSend (stream_params request)])
             | OpenReturns chunks stop \<Rightarrow>
                 (Inr (chunks, stop), [SdkSend (stream_params request)])))"

section \<open>Capability handlers\<close>

text \<open>
  What a handler does to the response object \<^verbatim>\<open>res\<close>, in order. A frame written to an
  event stream is \<^verbatim>\<open>data: {"content": delta}\<close> or the sentinel \<^verbatim>\<open>data: [DONE]\<close>, each
  followed by an empty line.
\<close>

datatype frame = DeltaFrame string | DoneFrame

datatype payload =
    ErrorOnly string
  | ErrorMessage string string
  | ChatResult AIResponse int string
  | VisionResult AIResponse int string string

datatype res_op = SetHeader string string | Status nat | Json payload | Write frame | End

text \<open>
  The request bodies, with \<open>None\<close> for a field that is absent. \<open>chat_messages\<close> is
  \<open>None\<close> also when \<^verbatim>\<open>messages\<close> is not an array.
\<close>

record chat_body =
  chat_messages :: "chat_message list option"
  chat_tier :: "string option"
  chat_stream :: "bool option"

record vision_body =
  prompt :: "string option"
  imageUrl :: "string option"
  imageBase64 :: "string option"
  vision_tier :: "string option"

text \<open>The \<^verbatim>\<open>for await\<close> loop over the chunks of the provider stream.\<close>

fun relay :: "string option list \<Rightarrow> res_op list" where
  "relay [] = []"
| "relay (delta # rest) =
     (if truthy_string delta then Write (DeltaFrame (the delta)) # relay rest else relay rest)"

definition chat_failed :: "error \<Rightarrow> res_op list" where
  "chat_failed err = [Status 500, Json (ErrorMessage ''Chat completion failed'' (message err))]"

definition chat_route :: "env \<Rightarrow> chat_body \<Rightarrow> res_op list \<times> call list" where
  "chat_route e body =
    (let tier = (case chat_tier body of None \<Rightarrow> ''free'' | Some t \<Rightarrow> t);
         stream = (case chat_stream body of None \<Rightarrow> False | Some b \<Rightarrow> b)
     in case chat_messages body of
          None \<Rightarrow> ([Status 400, Json (ErrorOnly ''Invalid messages format'')], [])
        | Some msgs \<Rightarrow>
            if stream then
              (let headers = [SetHeader ''Content-Type'' ''text/event-stream'',
                              SetHeader ''Cache-Control'' ''no-cache'',
                              SetHeader ''Connection'' ''keep-alive'']
               in case streamChatCompletion e
                         \<lparr>messages = msgs, tier = tier, stream = Some True, maxTokens = None\<rparr> of
                    (Inl err, calls) \<Rightarrow> (headers @ chat_failed err, calls)
                  | (Inr (chunks, StreamThrows m), calls) \<Rightarrow>
                      (headers @ relay chunks @ chat_failed (Error m), calls)
                  | (Inr (chunks, StreamEnds), calls) \<Rightarrow>
                      (headers @ relay chunks @ [Write DoneFrame, End], calls))
            else
              (let startTime = Date_now e 0
               in case chatCompletion e
                         \<lparr>messages = msgs, tier = tier, stream = None, maxTokens = None\<rparr> of
                    (Inl err, calls) \<Rightarrow> (chat_failed err, calls)
                  | (Inr response, calls) \<Rightarrow>
                      ([Json (ChatResult response (Date_now e 1 - startTime) tier)], calls)))"

text \<open>Lines 200-209 of the vision handler: the image part and the single user message.\<close>

definition vision_messages :: "vision_body \<Rightarrow> chat_message list" where
  "vision_messages body =
    (let imageContent =
           (if truthy_string (imageUrl body) then ImageUrlPart (the (imageUrl body))
            else ImageUrlPart (the (imageBase64 body)))
     in [Message ''user'' (Parts [TextPart (the (prompt body)), imageContent])])"

definition vision_route :: "env \<Rightarrow> vision_body \<Rightarrow> res_op list \<times> call list" where
  "vision_route e body =
    (if \<not> truthy_string (prompt body) then
       ([Status 400, Json (ErrorOnly ''Prompt is required'')], [])
     else if \<not> truthy_string (imageUrl body) \<and> \<not> truthy_string (imageBase64 body) then
       ([Status 400, Json (ErrorOnly ''Image URL or base64 data is required'')], [])
     else if \<not> truthy_string (vision_tier body) then
       ([Status 400, Json (ErrorOnly ''Tier is required'')], [])
     else
       (let startTime = Date_now e 0
        in case multimodalAnalysis e
                  \<lparr>messages = vision_messages body, tier = the (vision_tier body),
                   stream = None, maxTokens = None\<rparr> of
             (Inl err, calls) \<Rightarrow>
               ([Status 500, Json (ErrorMessage ''Vision analysis failed'' (message err))], calls)
           | (Inr response, calls) \<Rightarrow>
               ([Json (VisionResult response (Date_now e 1 - startTime) (the (vision_tier body))
                        ''image'')], calls)))"

section \<open>Reading the claims\<close>

text \<open>
  A response with at least one completion choice: a successful response whose parsed body has
  a non-empty \<^verbatim>\<open>choices\<close>. The second predicate asks in addition that the first choice
  carries a \<^verbatim>\<open>message\<close>.
\<close>

definition has_choice :: "env \<Rightarrow> fetch_outcome \<Rightarrow> bool" where
  "has_choice e out =
    (case out of
       FetchThrows _ \<Rightarrow> False
     | FetchResponse status responseText \<Rightarrow>
         ok status \<and>
         (case JSON_parse e responseText of
            Inl _ \<Rightarrow> False
          | Inr data \<Rightarrow> (case choices data of Some (_ # _) \<Rightarrow> True | _ \<Rightarrow> False)))"

definition has_message_choice :: "env \<Rightarrow> fetch_outcome \<Rightarrow> bool" where
  "has_message_choice e out =
    (case out of
       FetchThrows _ \<Rightarrow> False
     | FetchResponse status responseText \<Rightarrow>
         ok status \<and>
         (case JSON_parse e responseText of
            Inl _ \<Rightarrow> False
          | Inr data \<Rightarrow>
              (case choices data of Some (Choice_message _ # _) \<Rightarrow> True | _ \<Rightarrow> False)))"

text \<open>
  The normalized result in the specification's words, for a requested model identifier: the
  content, or the empty string when the provider omits it; the identifier the provider
  reports, or the requested one when it reports none (an empty string is no identifier);
  each counter, or zero when absent. Every field is present and typed: in particular the
  model is an identifier.
\<close>

definition normalized :: "string \<Rightarrow> completion \<Rightarrow> string option \<Rightarrow> AIResponse" where
  "normalized requested data c =
    \<lparr>content = (case c of None \<Rightarrow> [] | Some s \<Rightarrow> s),
     model = ModelId (case data_model data of
                        None \<Rightarrow> requested
                      | Some m \<Rightarrow> if m = [] then requested else m),
     tokensUsed = (case usage data of None \<Rightarrow> 0
                   | Some u \<Rightarrow> (case total_tokens u of None \<Rightarrow> 0 | Some k \<Rightarrow> k)),
     promptTokens = (case usage data of None \<Rightarrow> 0
                     | Some u \<Rightarrow> (case prompt_tokens u of None \<Rightarrow> 0 | Some k \<Rightarrow> k)),
     completionTokens = (case usage data of None \<Rightarrow> 0
                         | Some u \<Rightarrow> (case completion_tokens u of None \<Rightarrow> 0 | Some k \<Rightarrow> k))\<rparr>"

text \<open>
  A dispatch that went through the secondary path: the result of
  \<^verbatim>\<open>chatCompletionFallback\<close>, after the calls of the primary path and the direct calls.
\<close>

definition via_secondary :: "env \<Rightarrow> AIRequest \<Rightarrow> (error + AIResponse) \<times> call list" where
  "via_secondary e request =
    (fst (chatCompletionFallback e request),
     snd (chatCompletion_try e request) @ map Fetch (snd (chatCompletionFallback e request)))"

text \<open>The outcome of the direct call for candidate \<open>i\<close> of a request.\<close>

definition outcome :: "env \<Rightarrow> AIRequest \<Rightarrow> nat \<Rightarrow> fetch_outcome" where
  "outcome e request i = fetch e i (requestBody request (modelsToTry request ! i))"

text \<open>What the \<^verbatim>\<open>try\<close> body does for candidate \<open>i\<close> of a request.\<close>

definition candidate_attempt :: "env \<Rightarrow> AIRequest \<Rightarrow> nat \<Rightarrow> attempt_result" where
  "candidate_attempt e request i =
    attempt e (length (modelsToTry request)) i (modelsToTry request ! i)
      (requestBody request (modelsToTry request ! i))"

definition rate_limited :: "fetch_outcome \<Rightarrow> bool" where
  "rate_limited out = (case out of FetchThrows _ \<Rightarrow> False | FetchResponse status _ \<Rightarrow> status = 429)"

fun call_model :: "call \<Rightarrow> js_model" where
  "call_model (SdkSend p) = params_model p"
| "call_model (Fetch b) = body_model b"

fun call_bound :: "call \<Rightarrow> int option" where
  "call_bound (SdkSend p) = params_maxTokens p"
| "call_bound (Fetch b) = max_tokens b"


section \<open>An example gateway\<close>

text \<open>
  A gateway for running the dispatcher on concrete inputs: four body texts that parse, a
  client library with a fixed outcome, and direct calls answered by position.
\<close>

definition example_parse :: "string \<Rightarrow> string + completion" where
  "example_parse responseText =
    (if responseText = ''limited'' then
       Inr \<lparr>choices = None, data_model = None, usage = None,
            error_message = Some ''Rate limit exceeded''\<rparr>
     else if responseText = ''answer'' then
       Inr \<lparr>choices = Some [Choice_message (Some ''Hello'')],
            data_model = Some ''google/gemini-2.0-flash-exp:free'',
            usage = Some \<lparr>total_tokens = Some 12, prompt_tokens = Some 5,
                          completion_tokens = Some 7\<rparr>,
            error_message = None\<rparr>
     else if responseText = ''bare'' then
       Inr \<lparr>choices = Some [Choice_message None], data_model = None, usage = None,
            error_message = None\<rparr>
     else if responseText = ''text choice'' then
       Inr \<lparr>choices = Some [Choice_without_message], data_model = None, usage = None,
            error_message = None\<rparr>
     else Inl ''Unexpected token'')"

definition example_env :: "sdk_outcome \<Rightarrow> stream_outcome \<Rightarrow> fetch_outcome list \<Rightarrow> env" where
  "example_env sdk opened answers =
    \<lparr>OPENROUTER_API_KEY = Some ''sk-or-example'',
     client = False,
     chat_send = (\<lambda>_. sdk),
     chat_send_stream = (\<lambda>_. opened),
     fetch = (\<lambda>i _. if i < length answers then answers ! i else FetchThrows ''fetch failed''),
     JSON_parse = example_parse,
     Date_now = (\<lambda>k. 1000 + 250 * int k)\<rparr>"

definition example_request :: "string \<Rightarrow> AIRequest" where
  "example_request t =
    \<lparr>messages = [Message ''user'' (Text ''hi'')], tier = t, stream = None, maxTokens = None\<rparr>"

text \<open>
  Gateways used below: the client library is down and the direct call answers; the first
  free candidate is rate-limited and the second answers; every candidate fails; the first
  candidate answers with a choice that has no message; a completion with nothing but an
  empty message; a stream of four chunks; a stream that does not open.
\<close>

definition sdk_down :: env where
  "sdk_down = example_env (SdkThrows ''socket hang up'') (OpenThrows ''socket hang up'')
     [FetchResponse 200 ''answer'']"

definition second_answers :: env where
  "second_answers = example_env (SdkThrows ''socket hang up'') (OpenThrows ''socket hang up'')
     [FetchResponse 429 ''limited'', FetchResponse 200 ''answer'']"

definition all_fail :: env where
  "all_fail = example_env (SdkThrows ''socket hang up'') (OpenThrows ''socket hang up'')
     [FetchResponse 429 ''limited'', FetchResponse 500 ''<html>'',
      FetchThrows ''fetch failed'', FetchResponse 429 ''limited'']"

definition choice_without_message_first :: env where
  "choice_without_message_first =
     example_env (SdkThrows ''socket hang up'') (OpenThrows ''socket hang up'')
       [FetchResponse 200 ''text choice'', FetchResponse 200 ''answer'']"

definition bare_completion :: completion where
  "bare_completion =
     \<lparr>choices = Some [Choice_message None], data_model = None, usage = None,
      error_message = None\<rparr>"

definition bare_answers :: env where
  "bare_answers = example_env (SdkReturns bare_completion) (OpenThrows ''socket hang up'')
     [FetchResponse 200 ''bare'']"

definition stream_opens :: env where
  "stream_opens = example_env (SdkThrows ''socket hang up'')
     (OpenReturns [Some ''He'', None, Some [], Some ''llo''] StreamEnds) []"

definition stream_down :: env where
  "stream_down = example_env (SdkThrows ''socket hang up'') (OpenThrows ''socket hang up'') []"

definition streaming_body :: chat_body where
  "streaming_body =
     \<lparr>chat_messages = Some [Message ''user'' (Text ''hi'')], chat_tier = None,
      chat_stream = Some True\<rparr>"

definition vision_example :: vision_body where
  "vision_example =
     \<lparr>prompt = Some ''What is in this image?'', imageUrl = Some ''https://example.org/cat.png'',
      imageBase64 = Some ''data:image/png;base64,AAAA'', vision_tier = Some ''premium''\<rparr>"

section \<open>Tier resolution\<close>

lemma getModelForTier_recognized:
  "getModelForTier ''free'' = ModelId ''mistralai/mistral-7b-instruct:free''"
  "getModelForTier ''premium'' = ModelId ''openai/gpt-4o-mini''"
  "getModelForTier ''ultra-premium'' = ModelId ''anthropic/claude-3.5-sonnet''"
  "getModelForTier ''enterprise'' = ModelId ''anthropic/claude-3.7-sonnet''"
  by (simp_all add: getModelForTier_def get_property_def TIER_MODELS_def or_model_def)

lemma getModelForTier_unknown:
  assumes "t \<notin> fst ` set TIER_MODELS" and "t \<notin> set Object_prototype"
  shows "getModelForTier t = ModelId ''mistralai/mistral-7b-instruct:free''"
proof -
  from assms(1) have "map_of TIER_MODELS t = None"
    by (simp add: map_of_eq_None_iff)
  with assms(2) show ?thesis
    by (simp add: getModelForTier_def get_property_def or_model_def)
qed

text \<open>
  C5. An unrecognized tier is meant to resolve to the free tier's default model. The tier
  \<^verbatim>\<open>constructor\<close> is none of the four recognized tiers, yet the lookup finds the inherited
  \<^verbatim>\<open>Object.prototype.constructor\<close>, which is truthy, so the \<^verbatim>\<open>||\<close> default is not taken and
  the result is not the free tier's model.
\<close>

theorem getModelForTier_constructor:
  "''constructor'' \<notin> fst ` set TIER_MODELS
   \<and> getModelForTier ''constructor'' = Inherited ''constructor''
   \<and> getModelForTier ''constructor'' \<noteq> getModelForTier ''free''"
  by (simp add: getModelForTier_def get_property_def TIER_MODELS_def or_model_def
      Object_prototype_def)

section \<open>The candidate loop\<close>

lemma attempt_Continued: "attempt e n i m b = Continued \<Longrightarrow> i < n - 1"
  by (auto simp: attempt_def Let_def split: fetch_outcome.splits sum.splits option.splits
      list.splits choice.splits if_splits)

lemma drop_nth_Cons: "i < length ms \<Longrightarrow> drop i ms = ms ! i # drop (Suc i) ms"
  by (simp add: Cons_nth_drop_Suc)

lemma tryModels_done: "\<not> i < length ms \<Longrightarrow>
    tryModels e request ms i = (Inl (Error ''AI request failed: All models exhausted''), [])"
  by (simp add: tryModels.simps [of e request ms i])

lemma tryModels_Returned:
  "i < length ms \<Longrightarrow> attempt e (length ms) i (ms ! i) (requestBody request (ms ! i)) = Returned r
   \<Longrightarrow> tryModels e request ms i = (Inr r, [requestBody request (ms ! i)])"
  by (simp add: tryModels.simps [of e request ms i])

lemma tryModels_last:
  "i < length ms \<Longrightarrow> attempt e (length ms) i (ms ! i) (requestBody request (ms ! i)) = Thrown m
   \<Longrightarrow> i = length ms - 1
   \<Longrightarrow> tryModels e request ms i =
       (Inl (Error (''AI request failed: '' @ m)), [requestBody request (ms ! i)])"
  by (subst tryModels.simps) simp

lemma tryModels_next:
  assumes "i < length ms"
    and "\<forall>r. attempt e (length ms) i (ms ! i) (requestBody request (ms ! i)) \<noteq> Returned r"
    and "i \<noteq> length ms - 1"
  shows "tryModels e request ms i =
           (fst (tryModels e request ms (Suc i)),
            requestBody request (ms ! i) # snd (tryModels e request ms (Suc i)))"
proof (cases "attempt e (length ms) i (ms ! i) (requestBody request (ms ! i))")
  case (Returned r)
  with assms(2) show ?thesis by simp
next
  case Continued
  with assms(1) show ?thesis
    by (simp add: tryModels.simps [of e request ms i] case_prod_unfold Let_def)
next
  case (Thrown m)
  with assms(1,3) show ?thesis
    by (simp add: tryModels.simps [of e request ms i] case_prod_unfold Let_def)
qed

lemma attempt_last:
  assumes "\<forall>r. attempt e n i m b \<noteq> Returned r" and "i = n - 1"
  shows "\<exists>msg. attempt e n i m b = Thrown msg"
proof (cases "attempt e n i m b")
  case (Returned r)
  with assms(1) show ?thesis by simp
next
  case Continued
  from attempt_Continued [OF this] assms(2) show ?thesis by simp
next
  case (Thrown msg)
  then show ?thesis by simp
qed

lemma tryModels_sent:
  "snd (tryModels e request ms i) =
     map (requestBody request) (take (length (snd (tryModels e request ms i))) (drop i ms))"
proof (induction "length ms - i" arbitrary: i)
  case 0
  then show ?case by (simp add: tryModels_done)
next
  case (Suc d)
  then have lt: "i < length ms" by simp
  note dr = drop_nth_Cons [OF lt]
  let ?a = "attempt e (length ms) i (ms ! i) (requestBody request (ms ! i))"
  show ?case
  proof (cases "\<exists>r. ?a = Returned r")
    case True
    then obtain r where "?a = Returned r" ..
    from tryModels_Returned [OF lt this] dr show ?thesis by simp
  next
    case nr: False
    show ?thesis
    proof (cases "i = length ms - 1")
      case True
      from nr attempt_last [OF _ True] obtain msg where "?a = Thrown msg" by blast
      from tryModels_last [OF lt this True] dr show ?thesis by simp
    next
      case False
      from Suc(2) have "d = length ms - Suc i" by simp
      from Suc(1) [OF this] tryModels_next [OF lt _ False] nr dr show ?thesis by simp
    qed
  qed
qed

lemma tryModels_exhausted:
  assumes "i < length ms"
    and "\<forall>j. i \<le> j \<and> j < length ms \<longrightarrow>
           (\<forall>r. attempt e (length ms) j (ms ! j) (requestBody request (ms ! j)) \<noteq> Returned r)"
  shows "\<exists>m. attempt e (length ms) (length ms - 1) (ms ! (length ms - 1))
                (requestBody request (ms ! (length ms - 1))) = Thrown m
              \<and> tryModels e request ms i =
                  (Inl (Error (''AI request failed: '' @ m)),
                   map (requestBody request) (drop i ms))"
  using assms
proof (induction "length ms - i" arbitrary: i)
  case 0
  then show ?case by simp
next
  case (Suc d)
  then have lt: "i < length ms" by simp
  note dr = drop_nth_Cons [OF lt]
  let ?a = "attempt e (length ms) i (ms ! i) (requestBody request (ms ! i))"
  from Suc.prems(2) lt have nr: "\<forall>r. ?a \<noteq> Returned r" by simp
  show ?case
  proof (cases "i = length ms - 1")
    case True
    from attempt_last [OF nr True] obtain msg where t: "?a = Thrown msg" ..
    from lt True have "drop (Suc i) ms = []" by simp
    with tryModels_last [OF lt t True] dr t True show ?thesis by simp
  next
    case False
    with lt have lt': "Suc i < length ms" by simp
    from Suc(2) have "d = length ms - Suc i" by simp
    from Suc(1) [OF this lt'] Suc.prems(2) obtain m where
      "attempt e (length ms) (length ms - 1) (ms ! (length ms - 1))
                (requestBody request (ms ! (length ms - 1))) = Thrown m"
      "tryModels e request ms (Suc i) =
                  (Inl (Error (''AI request failed: '' @ m)),
                   map (requestBody request) (drop (Suc i) ms))" by auto
    with tryModels_next [OF lt nr False] dr show ?thesis by simp
  qed
qed

lemma tryModels_first:
  assumes "i \<le> k" and "k < length ms"
    and "attempt e (length ms) k (ms ! k) (requestBody request (ms ! k)) = Returned r"
    and "\<forall>j. i \<le> j \<and> j < k \<longrightarrow>
           (\<forall>r. attempt e (length ms) j (ms ! j) (requestBody request (ms ! j)) \<noteq> Returned r)"
  shows "tryModels e request ms i =
           (Inr r, map (requestBody request) (take (Suc k - i) (drop i ms)))"
  using assms(1,4)
proof (induction "k - i" arbitrary: i)
  case 0
  then have "i = k" by simp
  with tryModels_Returned [OF assms(2,3)] drop_nth_Cons [OF assms(2)] show ?case by simp
next
  case (Suc d)
  then have ik: "i < k" by simp
  with assms(2) have lt: "i < length ms" and nl: "i \<noteq> length ms - 1" by simp_all
  from Suc.prems(2) ik
  have nr: "\<forall>r. attempt e (length ms) i (ms ! i) (requestBody request (ms ! i)) \<noteq> Returned r"
    by simp
  from Suc(2) have d: "d = k - Suc i" by simp
  from ik have le: "Suc i \<le> k" by simp
  from Suc.prems(2) have "\<forall>j. Suc i \<le> j \<and> j < k \<longrightarrow>
           (\<forall>r. attempt e (length ms) j (ms ! j) (requestBody request (ms ! j)) \<noteq> Returned r)"
    by simp
  from Suc(1) [OF d le this] tryModels_next [OF lt nr nl] drop_nth_Cons [OF lt] ik
  show ?case by (simp add: Suc_diff_le)
qed

lemma tryModels_sends:
  assumes "i < length ms"
  shows "snd (tryModels e request ms i) \<noteq> []"
proof (cases "\<exists>r. attempt e (length ms) i (ms ! i) (requestBody request (ms ! i)) = Returned r")
  case True
  then obtain r where
    "attempt e (length ms) i (ms ! i) (requestBody request (ms ! i)) = Returned r" ..
  from tryModels_Returned [OF assms this] show ?thesis by simp
next
  case nr: False
  show ?thesis
  proof (cases "i = length ms - 1")
    case True
    from nr attempt_last [OF _ True] obtain msg where
      "attempt e (length ms) i (ms ! i) (requestBody request (ms ! i)) = Thrown msg" by blast
    from tryModels_last [OF assms this True] show ?thesis by simp
  next
    case False
    from tryModels_next [OF assms _ False] nr show ?thesis by simp
  qed
qed

lemma tryModels_advance:
  assumes "i \<le> j" and "j < i + length (snd (tryModels e request ms i))"
    and "Suc j < length ms"
    and "\<forall>r. attempt e (length ms) j (ms ! j) (requestBody request (ms ! j)) \<noteq> Returned r"
  shows "Suc j < i + length (snd (tryModels e request ms i))"
  using assms(1,2)
proof (induction "j - i" arbitrary: i)
  case 0
  then have ij: "i = j" by simp
  with assms(3) have lt: "i < length ms" and nl: "i \<noteq> length ms - 1" by simp_all
  from tryModels_next [OF lt _ nl] assms(4) ij
  have "length (snd (tryModels e request ms i)) = Suc (length (snd (tryModels e request ms (Suc i))))"
    by simp
  moreover from tryModels_sends [of "Suc i" ms e request] assms(3) ij
  have "snd (tryModels e request ms (Suc i)) \<noteq> []" by simp
  ultimately show ?case using ij by (cases "snd (tryModels e request ms (Suc i))") simp_all
next
  case (Suc d)
  then have ij: "i < j" by simp
  with assms(3) have lt: "i < length ms" and nl: "i \<noteq> length ms - 1" by simp_all
  have nr: "\<forall>r. attempt e (length ms) i (ms ! i) (requestBody request (ms ! i)) \<noteq> Returned r"
  proof (intro allI notI)
    fix r
    assume "attempt e (length ms) i (ms ! i) (requestBody request (ms ! i)) = Returned r"
    from tryModels_Returned [OF lt this] Suc.prems(2) ij show False by simp
  qed
  from tryModels_next [OF lt nr nl]
  have len: "length (snd (tryModels e request ms i)) = Suc (length (snd (tryModels e request ms (Suc i))))"
    by simp
  from Suc(2) have d: "d = j - Suc i" by simp
  from ij have le: "Suc i \<le> j" by simp
  from Suc.prems(2) len have "j < Suc i + length (snd (tryModels e request ms (Suc i)))" by simp
  from Suc(1) [OF d le this] len show ?case by simp
qed

section \<open>Normalized results\<close>

lemma counter_cases:
  "counter u f = (case u of None \<Rightarrow> 0 | Some c \<Rightarrow> (case f c of None \<Rightarrow> 0 | Some k \<Rightarrow> k))"
  by (auto simp: counter_def or_number_def split: option.splits)

lemma or_string_empty: "or_string c [] = (case c of None \<Rightarrow> [] | Some s \<Rightarrow> s)"
  by (auto simp: or_string_def split: option.splits)

lemma or_reported_cases:
  "or_reported a b = (case a of None \<Rightarrow> b | Some m \<Rightarrow> if m = [] then b else ModelId m)"
  by (auto simp: or_reported_def split: option.splits)

lemma attempt_Returned:
  "attempt e n i currentModel body = Returned r \<longleftrightarrow>
     (\<exists>status responseText data c rest.
        fetch e i body = FetchResponse status responseText \<and> ok status
        \<and> JSON_parse e responseText = Inr data
        \<and> choices data = Some (Choice_message c # rest)
        \<and> r = \<lparr>content = or_string c [],
                 model = or_reported (data_model data) currentModel,
                 tokensUsed = counter (usage data) total_tokens,
                 promptTokens = counter (usage data) prompt_tokens,
                 completionTokens = counter (usage data) completion_tokens\<rparr>)"
  by (auto simp: attempt_def Let_def
      split: fetch_outcome.splits sum.splits option.splits list.splits choice.splits)

lemma from_response_Inr:
  "from_response m response = Inr r \<longleftrightarrow>
     (\<exists>c rest. choices response = Some (Choice_message c # rest)
        \<and> r = \<lparr>content = or_string c [],
                 model = or_reported (data_model response) m,
                 tokensUsed = counter (usage response) total_tokens,
                 promptTokens = counter (usage response) prompt_tokens,
                 completionTokens = counter (usage response) completion_tokens\<rparr>)"
  by (auto simp: from_response_def split: option.splits list.splits choice.splits)

lemma normalized_eq:
  "\<lparr>content = or_string c [],
    model = or_reported (data_model data) (ModelId requested),
    tokensUsed = counter (usage data) total_tokens,
    promptTokens = counter (usage data) prompt_tokens,
    completionTokens = counter (usage data) completion_tokens\<rparr>
   = normalized requested data c"
  by (simp add: normalized_def counter_cases or_string_empty or_reported_cases
      split: option.splits)

lemma chatCompletion_try_Inr:
  "fst (chatCompletion_try e request) = Inr r \<longleftrightarrow>
     getClient e = Inr () \<and>
     (\<exists>response. chat_send e (chat_params request) = SdkReturns response
        \<and> from_response (getModelForTier (tier request)) response = Inr r)"
  by (auto simp: chatCompletion_try_def Let_def split: sum.splits sdk_outcome.splits)

lemma chat_results_normalized:
  "(attempt e n i (ModelId requested) body = Returned r \<longrightarrow>
      (\<exists>status responseText data c rest.
         fetch e i body = FetchResponse status responseText
         \<and> JSON_parse e responseText = Inr data
         \<and> choices data = Some (Choice_message c # rest)
         \<and> r = normalized requested data c))
   \<and> (getModelForTier (tier request) = ModelId requested
        \<and> fst (chatCompletion_try e request) = Inr r' \<longrightarrow>
      (\<exists>response c rest.
         chat_send e (chat_params request) = SdkReturns response
         \<and> choices response = Some (Choice_message c # rest)
         \<and> r' = normalized requested response c))"
  unfolding attempt_Returned chatCompletion_try_Inr from_response_Inr
  by (auto simp: normalized_eq)

section \<open>Candidates and their responses\<close>

lemma has_message_choice_Returned:
  "has_message_choice e (fetch e i body) \<longleftrightarrow> (\<exists>r. attempt e n i currentModel body = Returned r)"
  unfolding attempt_Returned
  by (auto simp: has_message_choice_def split: fetch_outcome.splits sum.splits option.splits
      list.splits choice.splits)

lemma has_message_choice_has_choice: "has_message_choice e out \<Longrightarrow> has_choice e out"
  by (auto simp: has_message_choice_def has_choice_def split: fetch_outcome.splits sum.splits
      option.splits list.splits choice.splits)

lemma rate_limited_no_choice: "rate_limited out \<Longrightarrow> \<not> has_message_choice e out"
  by (auto simp: rate_limited_def has_message_choice_def ok_def split: fetch_outcome.splits)

lemma candidate_Returned:
  "(\<exists>r. candidate_attempt e request i = Returned r) \<longleftrightarrow>
     has_message_choice e (outcome e request i)"
  unfolding candidate_attempt_def outcome_def by (rule has_message_choice_Returned [symmetric])

lemma modelsToTry_free:
  "tier request = ''free'' \<Longrightarrow> modelsToTry request = map ModelId FREE_MODEL_FALLBACKS"
  by (simp add: modelsToTry_def)

lemma modelsToTry_other:
  "tier request \<noteq> ''free'' \<Longrightarrow> modelsToTry request = [getModelForTier (tier request)]"
  by (simp add: modelsToTry_def)

lemma modelsToTry_nonempty: "0 < length (modelsToTry request)"
  by (simp add: modelsToTry_def FREE_MODEL_FALLBACKS_def)

lemma exhausted:
  assumes "\<forall>i<length (modelsToTry request). \<not> has_message_choice e (outcome e request i)"
  shows "\<exists>m. candidate_attempt e request (length (modelsToTry request) - 1) = Thrown m
           \<and> chatCompletionFallback e request =
               (Inl (Error (''AI request failed: '' @ m)),
                map (requestBody request) (modelsToTry request))"
proof -
  from assms have "\<forall>j. 0 \<le> j \<and> j < length (modelsToTry request) \<longrightarrow>
      (\<forall>r. attempt e (length (modelsToTry request)) j (modelsToTry request ! j)
             (requestBody request (modelsToTry request ! j)) \<noteq> Returned r)"
    using candidate_Returned [of e request] by (auto simp: candidate_attempt_def)
  from tryModels_exhausted [OF modelsToTry_nonempty this]
  show ?thesis by (simp add: chatCompletionFallback_def candidate_attempt_def)
qed

lemma chatCompletionFallback_sent:
  "snd (chatCompletionFallback e request) =
     map (requestBody request)
       (take (length (snd (chatCompletionFallback e request))) (modelsToTry request))"
  using tryModels_sent [of e request "modelsToTry request" 0]
  by (simp add: chatCompletionFallback_def)

lemma chatCompletionFallback_sends: "snd (chatCompletionFallback e request) \<noteq> []"
  using tryModels_sends [OF modelsToTry_nonempty] by (simp add: chatCompletionFallback_def)

lemma chatCompletionFallback_length:
  "length (snd (chatCompletionFallback e request)) \<le> length (modelsToTry request)"
  using arg_cong [OF chatCompletionFallback_sent [of e request], of length] by simp

section \<open>Primary and secondary path\<close>

lemma chatCompletion_try_calls:
  "snd (chatCompletion_try e request) = [] \<or>
   snd (chatCompletion_try e request) = [SdkSend (chat_params request)]"
  by (simp add: chatCompletion_try_def Let_def split: sum.splits sdk_outcome.splits)

lemma chatCompletion_secondary:
  assumes "isl (fst (chatCompletion_try e request))"
  shows "chatCompletion e request = via_secondary e request"
proof -
  obtain res calls where t: "chatCompletion_try e request = (res, calls)"
    by (cases "chatCompletion_try e request")
  with assms obtain err where "res = Inl err" by (cases res) simp_all
  with t show ?thesis
    by (simp add: chatCompletion_def via_secondary_def case_prod_unfold Let_def)
qed

lemma chatCompletion_primary:
  assumes "\<not> isl (fst (chatCompletion_try e request))"
  shows "chatCompletion e request = chatCompletion_try e request"
proof -
  obtain res calls where t: "chatCompletion_try e request = (res, calls)"
    by (cases "chatCompletion_try e request")
  with assms obtain r where "res = Inr r" by (cases res) simp_all
  with t show ?thesis by (simp add: chatCompletion_def)
qed

lemma chatCompletion_calls:
  assumes "c \<in> set (snd (chatCompletion e request))"
  shows "c = SdkSend (chat_params request) \<or>
         (\<exists>m\<in>set (modelsToTry request). c = Fetch (requestBody request m))"
proof (cases "isl (fst (chatCompletion_try e request))")
  case False
  from assms chatCompletion_primary [OF False] chatCompletion_try_calls [of e request]
  show ?thesis by auto
next
  case True
  have "set (snd (chatCompletionFallback e request)) \<subseteq> requestBody request ` set (modelsToTry request)"
    by (subst chatCompletionFallback_sent) (auto dest: in_set_takeD)
  with assms chatCompletion_secondary [OF True] chatCompletion_try_calls [of e request]
  show ?thesis by (auto simp: via_secondary_def)
qed

lemma chatCompletion_bound:
  assumes "c \<in> set (snd (chatCompletion e request))"
  shows "call_bound c = spread_maxTokens (maxTokens request)"
  using chatCompletion_calls [OF assms] by (auto simp: chat_params_def requestBody_def)

lemma chatCompletion_model:
  assumes "c \<in> set (snd (chatCompletion e request))" and "tier request \<noteq> ''free''"
  shows "call_model c = getModelForTier (tier request)"
  using chatCompletion_calls [OF assms(1)] modelsToTry_other [OF assms(2)]
  by (auto simp: chat_params_def requestBody_def)

lemma multimodalAnalysis_calls:
  "c \<in> set (snd (multimodalAnalysis e request)) \<Longrightarrow> c = SdkSend (vision_params request)"
  by (auto simp: multimodalAnalysis_def Let_def split: sum.splits sdk_outcome.splits)


lemma chatCompletion_sends: "snd (chatCompletion e request) \<noteq> []"
proof (cases "isl (fst (chatCompletion_try e request))")
  case True
  from chatCompletion_secondary [OF True] chatCompletionFallback_sends [of e request]
  show ?thesis by (simp add: via_secondary_def)
next
  case False
  then obtain r where "fst (chatCompletion_try e request) = Inr r"
    by (cases "fst (chatCompletion_try e request)") simp_all
  then have "snd (chatCompletion_try e request) \<noteq> []"
    by (auto simp: chatCompletion_try_def Let_def split: sum.splits sdk_outcome.splits)
  with chatCompletion_primary [OF False] show ?thesis by simp
qed

lemma multimodalAnalysis_sends:
  "getClient e = Inr () \<Longrightarrow> snd (multimodalAnalysis e request) = [SdkSend (vision_params request)]"
  by (simp add: multimodalAnalysis_def Let_def split: sum.splits sdk_outcome.splits)

lemma multimodalAnalysis_bound:
  "c \<in> set (snd (multimodalAnalysis e request)) \<Longrightarrow>
     call_bound c = Some (or_number (maxTokens request) 2000)"
  by (auto dest: multimodalAnalysis_calls simp: vision_params_def)

section \<open>The free tier\<close>

lemma distinct_FREE_MODEL_FALLBACKS: "distinct FREE_MODEL_FALLBACKS"
  by (simp add: FREE_MODEL_FALLBACKS_def)

lemma free_sent:
  assumes "tier request = ''free''"
  shows "snd (chatCompletionFallback e request) =
           map (\<lambda>m. requestBody request (ModelId m))
             (take (length (snd (chatCompletionFallback e request))) FREE_MODEL_FALLBACKS)"
  by (subst chatCompletionFallback_sent) (simp add: modelsToTry_free [OF assms] take_map)

lemma free_length:
  assumes "tier request = ''free''"
  shows "length (snd (chatCompletionFallback e request)) \<le> length FREE_MODEL_FALLBACKS"
  using chatCompletionFallback_length [of e request] modelsToTry_free [OF assms] by simp

lemma free_advance:
  assumes "tier request = ''free''"
    and "i < length (snd (chatCompletionFallback e request))"
    and "Suc i < length FREE_MODEL_FALLBACKS"
    and "\<not> has_message_choice e (outcome e request i)"
  shows "Suc i < length (snd (chatCompletionFallback e request))"
proof -
  from assms(4) candidate_Returned [of e request i]
  have "\<forall>r. attempt e (length (modelsToTry request)) i (modelsToTry request ! i)
              (requestBody request (modelsToTry request ! i)) \<noteq> Returned r"
    by (simp add: candidate_attempt_def)
  from tryModels_advance [of 0 i e request "modelsToTry request", OF _ _ _ this] assms(1-3)
  show ?thesis by (simp add: chatCompletionFallback_def modelsToTry_free)
qed

lemma first_accepted:
  assumes "k < length (modelsToTry request)"
    and "has_message_choice e (outcome e request k)"
    and "\<forall>j<k. \<not> has_message_choice e (outcome e request j)"
  shows "\<exists>r. candidate_attempt e request k = Returned r
           \<and> chatCompletionFallback e request =
               (Inr r, map (requestBody request) (take (Suc k) (modelsToTry request)))"
proof -
  from assms(2) candidate_Returned [of e request k] obtain r where
    r: "candidate_attempt e request k = Returned r" by blast
  from assms(3) candidate_Returned [of e request]
  have "\<forall>j. 0 \<le> j \<and> j < k \<longrightarrow>
          (\<forall>r. attempt e (length (modelsToTry request)) j (modelsToTry request ! j)
             (requestBody request (modelsToTry request ! j)) \<noteq> Returned r)"
    by (auto simp: candidate_attempt_def)
  from tryModels_first [OF _ assms(1) r [unfolded candidate_attempt_def] this] r
  show ?thesis by (simp add: chatCompletionFallback_def)
qed

section \<open>Streaming frames\<close>

lemma relay_frames: "relay chunks = map (\<lambda>d. Write (DeltaFrame (the d))) (filter truthy_string chunks)"
  by (induction chunks) simp_all

lemma count_relay: "count_list (relay chunks) (Write DoneFrame) = 0"
  by (induction chunks) simp_all

section \<open>Running the examples\<close>

lemma string_of_nat_429: "string_of_nat 429 = ''429''"
  by (simp add: string_of_nat.simps)

lemma less_4_cases: "i < (4::nat) \<Longrightarrow> i = 0 \<or> i = 1 \<or> i = 2 \<or> i = 3"
  by arith

lemma free_example_models:
  "modelsToTry (example_request ''free'') = map ModelId FREE_MODEL_FALLBACKS"
  by (simp add: modelsToTry_def example_request_def)

section \<open>Claims\<close>

subsection \<open>Falling through to the secondary path\<close>




subsection \<open>Exhaustion\<close>

text \<open>
  C2 as stated fails: the exhaustion error is not distinguishable from a single-candidate
  failure. On the same gateway, the free tier exhausts its four candidates and a paid tier's
  only candidate fails, and both dispatches end in the same error. The one message that
  would tell them apart, \<^verbatim>\<open>All models exhausted\<close>, is thrown after the loop, which no
  non-empty candidate list reaches.
\<close>

theorem exhaustion_same_as_single_failure:
  "chatCompletionFallback all_fail (example_request ''free'')
     = (Inl (Error ''AI request failed: OpenRouter API error (429): Rate limit exceeded''),
        [requestBody (example_request ''free'') (ModelId ''mistralai/mistral-7b-instruct:free''),
         requestBody (example_request ''free'') (ModelId ''google/gemini-2.0-flash-exp:free''),
         requestBody (example_request ''free'')
           (ModelId ''nousresearch/hermes-3-llama-3.1-405b:free''),
         requestBody (example_request ''free'')
           (ModelId ''microsoft/phi-3-mini-128k-instruct:free'')])
   \<and> chatCompletionFallback all_fail (example_request ''premium'')
     = (Inl (Error ''AI request failed: OpenRouter API error (429): Rate limit exceeded''),
        [requestBody (example_request ''premium'') (ModelId ''openai/gpt-4o-mini'')])"
  by (simp add: chatCompletionFallback_def modelsToTry_def FREE_MODEL_FALLBACKS_def
      getModelForTier_recognized tryModels.simps attempt_def all_fail_def example_env_def
      example_request_def example_parse_def ok_def or_string_def string_of_nat_429 Let_def)

text \<open>
  C2, as amended. When no candidate's response contains a completion choice, every candidate
  has been sent, the last candidate's attempt threw some message \<open>m\<close>, and the dispatch
  fails with the error \<^verbatim>\<open>AI request failed: m\<close>, whether the list had one candidate or
  several.
\<close>

theorem exhaustion_error:
  assumes "\<forall>i<length (modelsToTry request). \<not> has_choice e (outcome e request i)"
  shows "\<exists>m. candidate_attempt e request (length (modelsToTry request) - 1) = Thrown m
           \<and> chatCompletionFallback e request =
               (Inl (Error (''AI request failed: '' @ m)),
                map (requestBody request) (modelsToTry request))"
proof -
  from assms have "\<forall>i<length (modelsToTry request). \<not> has_message_choice e (outcome e request i)"
    using has_message_choice_has_choice by blast
  from exhausted [OF this] show ?thesis .
qed

text \<open>
  C2, at a concrete gateway and request.
\<close>

theorem exhaustion_error_witness:
  "length (modelsToTry (example_request ''free'')) = 4
   \<and> \<not> has_choice all_fail (outcome all_fail (example_request ''free'') 0)
   \<and> \<not> has_choice all_fail (outcome all_fail (example_request ''free'') 1)
   \<and> \<not> has_choice all_fail (outcome all_fail (example_request ''free'') 2)
   \<and> \<not> has_choice all_fail (outcome all_fail (example_request ''free'') 3)
   \<and> chatCompletionFallback all_fail (example_request ''free'') =
       (Inl (Error ''AI request failed: OpenRouter API error (429): Rate limit exceeded''),
        map (requestBody (example_request ''free'')) (modelsToTry (example_request ''free'')))"
proof -
  have h: "\<forall>i<length (modelsToTry (example_request ''free'')).
       \<not> has_choice all_fail (outcome all_fail (example_request ''free'') i)"
  proof (intro allI impI)
    fix i
    assume "i < length (modelsToTry (example_request ''free''))"
    then have "i < 4" by (simp add: free_example_models FREE_MODEL_FALLBACKS_def)
    from less_4_cases [OF this]
    show "\<not> has_choice all_fail (outcome all_fail (example_request ''free'') i)"
      by (auto simp: has_choice_def outcome_def all_fail_def example_env_def ok_def)
  qed
  have last: "candidate_attempt all_fail (example_request ''free'')
                (length (modelsToTry (example_request ''free'')) - 1)
              = Thrown ''OpenRouter API error (429): Rate limit exceeded''"
    by (simp add: candidate_attempt_def free_example_models FREE_MODEL_FALLBACKS_def
        attempt_def all_fail_def example_env_def example_parse_def ok_def or_string_def
        string_of_nat_429)
  have n: "length (modelsToTry (example_request ''free'')) = 4"
    by (simp add: free_example_models FREE_MODEL_FALLBACKS_def)
  from exhaustion_error [OF h] last have "chatCompletionFallback all_fail (example_request ''free'') =
       (Inl (Error ''AI request failed: OpenRouter API error (429): Rate limit exceeded''),
        map (requestBody (example_request ''free'')) (modelsToTry (example_request ''free'')))"
    by auto
  with h n show ?thesis by simp
qed

subsection \<open>Order of the free-tier candidates\<close>

text \<open>
  C3 as stated fails. The first free candidate answers with status 200 and one choice that
  has no \<^verbatim>\<open>message\<close>: the response contains a completion choice, yet it is not returned.
  Reading \<^verbatim>\<open>choice.message.content\<close> throws, the loop goes on, and the second
  candidate's response is the result.
\<close>

theorem choice_without_message_not_returned:
  "has_choice choice_without_message_first
     (outcome choice_without_message_first (example_request ''free'') 0)
   \<and> chatCompletionFallback choice_without_message_first (example_request ''free'') =
       (Inr \<lparr>content = ''Hello'', model = ModelId ''google/gemini-2.0-flash-exp:free'',
             tokensUsed = 12, promptTokens = 5, completionTokens = 7\<rparr>,
        [requestBody (example_request ''free'') (ModelId ''mistralai/mistral-7b-instruct:free''),
         requestBody (example_request ''free'') (ModelId ''google/gemini-2.0-flash-exp:free'')])"
  by (simp add: has_choice_def outcome_def chatCompletionFallback_def free_example_models
      FREE_MODEL_FALLBACKS_def tryModels.simps attempt_def choice_without_message_first_def
      example_env_def example_parse_def ok_def or_string_def or_reported_def counter_def
      or_number_def Let_def)

text \<open>
  C3, as amended. For a free-tier request the bodies sent are those of a non-empty prefix of
  \<^verbatim>\<open>FREE_MODEL_FALLBACKS\<close>, in that order. A rate-limited answer to candidate \<open>i\<close>, when
  it is not the last, is followed by a call for candidate \<open>i + 1\<close>, a different model. The
  first candidate whose successful response has a first choice carrying a message is
  returned, and nothing is sent after it.
\<close>

theorem free_tier_fallback_order:
  assumes "tier request = ''free''" and "sent = snd (chatCompletionFallback e request)"
  shows "(\<exists>k. 0 < k \<and> k \<le> length FREE_MODEL_FALLBACKS
            \<and> sent = map (\<lambda>m. requestBody request (ModelId m)) (take k FREE_MODEL_FALLBACKS))
       \<and> (\<forall>i. i < length sent \<and> Suc i < length FREE_MODEL_FALLBACKS
               \<and> rate_limited (outcome e request i)
             \<longrightarrow> Suc i < length sent
               \<and> body_model (sent ! Suc i) = ModelId (FREE_MODEL_FALLBACKS ! Suc i)
               \<and> body_model (sent ! Suc i) \<noteq> body_model (sent ! i))
       \<and> (\<forall>k. k < length FREE_MODEL_FALLBACKS
               \<and> has_message_choice e (outcome e request k)
               \<and> (\<forall>j<k. \<not> has_message_choice e (outcome e request j))
             \<longrightarrow> (\<exists>r. candidate_attempt e request k = Returned r
                      \<and> fst (chatCompletionFallback e request) = Inr r)
               \<and> length sent = Suc k)"
proof (intro conjI allI impI)
  let ?n = "length sent"
  note sent = free_sent [OF assms(1), of e, folded assms(2)]
  note len = free_length [OF assms(1), of e, folded assms(2)]
  have nth: "body_model (sent ! i) = ModelId (FREE_MODEL_FALLBACKS ! i)" if "i < ?n" for i
  proof -
    from that len have "sent ! i = requestBody request (ModelId (FREE_MODEL_FALLBACKS ! i))"
      by (subst sent) simp
    then show ?thesis by (simp add: requestBody_def)
  qed
  from chatCompletionFallback_sends [of e request] assms(2) have "0 < ?n" by simp
  with sent len
  show "\<exists>k. 0 < k \<and> k \<le> length FREE_MODEL_FALLBACKS
            \<and> sent = map (\<lambda>m. requestBody request (ModelId m)) (take k FREE_MODEL_FALLBACKS)"
    by blast
  {
    fix i
    assume a: "i < length sent \<and> Suc i < length FREE_MODEL_FALLBACKS
               \<and> rate_limited (outcome e request i)"
    then have "\<not> has_message_choice e (outcome e request i)"
      by (simp add: rate_limited_no_choice)
    from free_advance [OF assms(1) _ _ this] a assms(2)
    show next_sent: "Suc i < length sent" by simp
    from nth [OF this] show "body_model (sent ! Suc i) = ModelId (FREE_MODEL_FALLBACKS ! Suc i)" .
    from a distinct_FREE_MODEL_FALLBACKS
    have "FREE_MODEL_FALLBACKS ! Suc i \<noteq> FREE_MODEL_FALLBACKS ! i"
      by (simp add: nth_eq_iff_index_eq)
    with nth [OF next_sent] nth [of i] a
    show "body_model (sent ! Suc i) \<noteq> body_model (sent ! i)" by simp
  }
  {
    fix k
    assume a: "k < length FREE_MODEL_FALLBACKS
               \<and> has_message_choice e (outcome e request k)
               \<and> (\<forall>j<k. \<not> has_message_choice e (outcome e request j))"
    then have "k < length (modelsToTry request)" by (simp add: modelsToTry_free [OF assms(1)])
    from first_accepted [OF this] a obtain r where
      r: "candidate_attempt e request k = Returned r"
      "chatCompletionFallback e request =
               (Inr r, map (requestBody request) (take (Suc k) (modelsToTry request)))"
      by blast
    then show "\<exists>r. candidate_attempt e request k = Returned r
                      \<and> fst (chatCompletionFallback e request) = Inr r" by simp
    from r(2) a assms show "length sent = Suc k"
      by (simp add: modelsToTry_free)
  }
qed

text \<open>
  C3, at a concrete gateway and request.
\<close>

theorem free_tier_fallback_order_witness:
  "tier (example_request ''free'') = ''free''
   \<and> rate_limited (outcome second_answers (example_request ''free'') 0)
   \<and> has_message_choice second_answers (outcome second_answers (example_request ''free'') 1)
   \<and> length (snd (chatCompletionFallback second_answers (example_request ''free''))) = 2
   \<and> body_model (snd (chatCompletionFallback second_answers (example_request ''free'')) ! 1)
       = ModelId ''google/gemini-2.0-flash-exp:free''
   \<and> (\<exists>r. candidate_attempt second_answers (example_request ''free'') 1 = Returned r
         \<and> fst (chatCompletionFallback second_answers (example_request ''free'')) = Inr r)"
proof -
  let ?R = "example_request ''free''"
  let ?sent = "snd (chatCompletionFallback second_answers ?R)"
  have t: "tier ?R = ''free''" by (simp add: example_request_def)
  have rl: "rate_limited (outcome second_answers ?R 0)"
    by (simp add: rate_limited_def outcome_def second_answers_def example_env_def)
  have acc: "has_message_choice second_answers (outcome second_answers ?R 1)"
    by (simp add: has_message_choice_def outcome_def second_answers_def example_env_def
        example_parse_def ok_def)
  have first: "\<forall>j<1. \<not> has_message_choice second_answers (outcome second_answers ?R j)"
    using rl by (simp add: rate_limited_no_choice)
  note ord = free_tier_fallback_order [OF t refl, of second_answers]
  have k: "1 < length FREE_MODEL_FALLBACKS" by (simp add: FREE_MODEL_FALLBACKS_def)
  from ord [THEN conjunct2, THEN conjunct2, rule_format, of 1] k acc first
  have ret: "(\<exists>r. candidate_attempt second_answers ?R 1 = Returned r
         \<and> fst (chatCompletionFallback second_answers ?R) = Inr r)"
    and len: "length ?sent = 2"
    by simp_all
  from ord [THEN conjunct2, THEN conjunct1, rule_format, of 0] rl len k
  have "body_model (?sent ! Suc 0) = ModelId (FREE_MODEL_FALLBACKS ! Suc 0)"
    by simp
  then have "body_model (?sent ! 1) = ModelId ''google/gemini-2.0-flash-exp:free''"
    by (simp add: FREE_MODEL_FALLBACKS_def)
  with t rl acc len ret show ?thesis by simp
qed

subsection \<open>Other tiers have one candidate\<close>

text \<open>
  C4. For a tier other than \<^verbatim>\<open>free\<close> the candidate list is the single resolved model, the
  secondary path sends exactly one body, for that model, and every call of the whole dispatch
  names that model.
\<close>

theorem single_candidate:
  assumes "tier request \<noteq> ''free''"
  shows "modelsToTry request = [getModelForTier (tier request)]
       \<and> snd (chatCompletionFallback e request) =
           [requestBody request (getModelForTier (tier request))]
       \<and> (\<forall>c\<in>set (snd (chatCompletion e request)).
             call_model c = getModelForTier (tier request))"
proof -
  note ms = modelsToTry_other [OF assms]
  from chatCompletionFallback_length [of e request] chatCompletionFallback_sends [of e request] ms
  have "length (snd (chatCompletionFallback e request)) = 1"
    by (cases "snd (chatCompletionFallback e request)") simp_all
  with chatCompletionFallback_sent [of e request] ms
  have "snd (chatCompletionFallback e request) =
           [requestBody request (getModelForTier (tier request))]" by simp
  moreover have "\<forall>c\<in>set (snd (chatCompletion e request)).
             call_model c = getModelForTier (tier request)"
    using chatCompletion_model assms by blast
  ultimately show ?thesis using ms by simp
qed

text \<open>
  C4, at a concrete gateway and request.
\<close>

theorem single_candidate_witness:
  "tier (example_request ''premium'') \<noteq> ''free''
   \<and> modelsToTry (example_request ''premium'') = [ModelId ''openai/gpt-4o-mini'']
   \<and> snd (chatCompletionFallback all_fail (example_request ''premium'')) =
       [requestBody (example_request ''premium'') (ModelId ''openai/gpt-4o-mini'')]
   \<and> list_all (\<lambda>c. call_model c = ModelId ''openai/gpt-4o-mini'')
         (snd (chatCompletion all_fail (example_request ''premium'')))"
  using single_candidate [of "example_request ''premium''" all_fail]
  by (simp add: example_request_def getModelForTier_recognized list_all_iff)

subsection \<open>Normalization defaults\<close>

text \<open>
  C6. The normalized result should name the provider's model or else the requested one, as
  an identifier. The vision dispatch of the free tier requests
  \<^verbatim>\<open>google/gemini-2.0-flash-exp:free\<close>; when the provider's completion names no model,
  the result names \<^verbatim>\<open>mistralai/mistral-7b-instruct:free\<close>, which was never requested,
  because \<^verbatim>\<open>multimodalAnalysis\<close> defaults to the tier's text model. And for the tier
  \<^verbatim>\<open>constructor\<close> the requested model is the inherited member, so the result's model is
  no identifier at all. For a requested identifier, \<^verbatim>\<open>chatCompletion\<close> and
  \<^verbatim>\<open>chatCompletionFallback\<close> do return the normalized result (lemma
  \<open>chat_results_normalized\<close>).
\<close>

theorem vision_reports_unrequested_model:
  "params_model (vision_params (example_request ''free''))
     = ModelId ''google/gemini-2.0-flash-exp:free''
   \<and> multimodalAnalysis bare_answers (example_request ''free'')
     = (Inr \<lparr>content = [], model = ModelId ''mistralai/mistral-7b-instruct:free'',
             tokensUsed = 0, promptTokens = 0, completionTokens = 0\<rparr>,
        [SdkSend (vision_params (example_request ''free''))])
   \<and> chatCompletion bare_answers (example_request ''constructor'')
     = (Inr \<lparr>content = [], model = Inherited ''constructor'',
             tokensUsed = 0, promptTokens = 0, completionTokens = 0\<rparr>,
        [SdkSend (chat_params (example_request ''constructor''))])"
  by (simp add: multimodalAnalysis_def chatCompletion_def chatCompletion_try_def
      vision_params_def getClient_def bare_answers_def bare_completion_def example_env_def
      example_request_def from_response_def getModelForTier_def get_property_def
      TIER_MODELS_def visionModels_def Object_prototype_def or_model_def or_string_def
      or_reported_def counter_def or_number_def Let_def)

subsection \<open>The streamed frames\<close>

text \<open>
  C7 as stated fails. When the provider stream does not open, the streaming request is
  answered with status 500 and an error payload, and no sentinel frame is written.
\<close>

theorem stream_failure_has_no_sentinel:
  "fst (chat_route stream_down streaming_body) =
     [SetHeader ''Content-Type'' ''text/event-stream'',
      SetHeader ''Cache-Control'' ''no-cache'',
      SetHeader ''Connection'' ''keep-alive'',
      Status 500,
      Json (ErrorMessage ''Chat completion failed'' ''AI streaming failed: socket hang up'')]
   \<and> count_list (fst (chat_route stream_down streaming_body)) (Write DoneFrame) = 0"
  by (simp add: chat_route_def streamChatCompletion_def getClient_def stream_down_def
      streaming_body_def example_env_def chat_failed_def Let_def)

text \<open>
  C7, as amended. A streaming chat request with a message list, whose provider stream opens
  and ends without a fault, sets the three headers, writes one frame for each non-empty delta
  in order, then exactly one sentinel frame, and ends the response. With no delta at all the
  sentinel is the only frame.
\<close>

theorem stream_ends_with_sentinel:
  assumes "chat_messages body = Some msgs" and "chat_stream body = Some True"
    and "fst (streamChatCompletion e
               \<lparr>messages = msgs,
                tier = (case chat_tier body of None \<Rightarrow> ''free'' | Some t \<Rightarrow> t),
                stream = Some True, maxTokens = None\<rparr>) = Inr (chunks, StreamEnds)"
  shows "fst (chat_route e body) =
           [SetHeader ''Content-Type'' ''text/event-stream'',
            SetHeader ''Cache-Control'' ''no-cache'',
            SetHeader ''Connection'' ''keep-alive'']
           @ map (\<lambda>d. Write (DeltaFrame (the d))) (filter truthy_string chunks)
           @ [Write DoneFrame, End]
       \<and> count_list (fst (chat_route e body)) (Write DoneFrame) = 1"
proof -
  obtain res calls where s: "streamChatCompletion e
               \<lparr>messages = msgs,
                tier = (case chat_tier body of None \<Rightarrow> ''free'' | Some t \<Rightarrow> t),
                stream = Some True, maxTokens = None\<rparr> = (res, calls)"
    by (cases "streamChatCompletion e
               \<lparr>messages = msgs,
                tier = (case chat_tier body of None \<Rightarrow> ''free'' | Some t \<Rightarrow> t),
                stream = Some True, maxTokens = None\<rparr>")
  with assms(3) have "res = Inr (chunks, StreamEnds)" by simp
  with s assms(1,2) have "fst (chat_route e body) =
           [SetHeader ''Content-Type'' ''text/event-stream'',
            SetHeader ''Cache-Control'' ''no-cache'',
            SetHeader ''Connection'' ''keep-alive'']
           @ relay chunks @ [Write DoneFrame, End]"
    by (simp add: chat_route_def Let_def)
  then show ?thesis by (simp add: relay_frames [symmetric] count_relay)
qed

text \<open>
  C7, at a concrete gateway and request.
\<close>

theorem stream_ends_with_sentinel_witness:
  "chat_messages streaming_body = Some [Message ''user'' (Text ''hi'')]
   \<and> chat_stream streaming_body = Some True
   \<and> fst (chat_route stream_opens streaming_body) =
       [SetHeader ''Content-Type'' ''text/event-stream'',
        SetHeader ''Cache-Control'' ''no-cache'',
        SetHeader ''Connection'' ''keep-alive'',
        Write (DeltaFrame ''He''), Write (DeltaFrame ''llo''), Write DoneFrame, End]
   \<and> count_list (fst (chat_route stream_opens streaming_body)) (Write DoneFrame) = 1"
proof -
  have m: "chat_messages streaming_body = Some [Message ''user'' (Text ''hi'')]"
    and s: "chat_stream streaming_body = Some True"
    by (simp_all add: streaming_body_def)
  have o: "fst (streamChatCompletion stream_opens
               \<lparr>messages = [Message ''user'' (Text ''hi'')],
                tier = (case chat_tier streaming_body of None \<Rightarrow> ''free'' | Some t \<Rightarrow> t),
                stream = Some True, maxTokens = None\<rparr>)
           = Inr ([Some ''He'', None, Some [], Some ''llo''], StreamEnds)"
    by (simp add: streamChatCompletion_def getClient_def stream_opens_def example_env_def
        Let_def)
  from stream_ends_with_sentinel [OF m s o] m s show ?thesis by simp
qed

subsection \<open>Vision validation\<close>

text \<open>
  C8. A vision request with neither an image URL nor inline image data is answered with
  status 400 and an error payload, and no remote call is issued, whether or not the prompt
  is present.
\<close>

theorem vision_requires_image:
  assumes "\<not> truthy_string (imageUrl body)" and "\<not> truthy_string (imageBase64 body)"
  shows "\<exists>msg. vision_route e body = ([Status 400, Json (ErrorOnly msg)], [])"
  using assms by (simp add: vision_route_def)

text \<open>
  C8, at a concrete gateway and request.
\<close>

theorem vision_requires_image_witness:
  "\<not> truthy_string (imageUrl (vision_example\<lparr>imageUrl := None, imageBase64 := None\<rparr>))
   \<and> \<not> truthy_string (imageBase64 (vision_example\<lparr>imageUrl := None, imageBase64 := None\<rparr>))
   \<and> (\<exists>msg. vision_route sdk_down (vision_example\<lparr>imageUrl := None, imageBase64 := None\<rparr>)
         = ([Status 400, Json (ErrorOnly msg)], []))"
  using vision_requires_image
    [of "vision_example\<lparr>imageUrl := None, imageBase64 := None\<rparr>" sdk_down]
  by simp

text \<open>
  C9. When the image URL is supplied and non-empty, the single user message carries the
  prompt and the URL as its image reference, and the inline image data has no influence on
  the message nor on anything the handler does. With a prompt and a tier the handler
  dispatches exactly that message to \<^verbatim>\<open>multimodalAnalysis\<close>, and when the client is
  available the one call issued carries it.
\<close>

theorem vision_prefers_imageUrl:
  assumes "imageUrl body = Some u" and "u \<noteq> []"
  shows "vision_messages body =
           [Message ''user'' (Parts [TextPart (the (prompt body)), ImageUrlPart u])]
       \<and> vision_messages (body\<lparr>imageBase64 := b\<rparr>) = vision_messages body
       \<and> vision_route e (body\<lparr>imageBase64 := b\<rparr>) = vision_route e body
       \<and> (truthy_string (prompt body) \<and> truthy_string (vision_tier body) \<longrightarrow>
            vision_route e body =
              (case multimodalAnalysis e
                      \<lparr>messages = [Message ''user''
                                     (Parts [TextPart (the (prompt body)), ImageUrlPart u])],
                       tier = the (vision_tier body), stream = None, maxTokens = None\<rparr> of
                 (Inl err, calls) \<Rightarrow>
                   ([Status 500,
                     Json (ErrorMessage ''Vision analysis failed'' (message err))], calls)
               | (Inr response, calls) \<Rightarrow>
                   ([Json (VisionResult response (Date_now e 1 - Date_now e 0)
                            (the (vision_tier body)) ''image'')], calls)))
       \<and> (truthy_string (prompt body) \<and> truthy_string (vision_tier body)
            \<and> getClient e = Inr () \<longrightarrow>
            (\<exists>p. snd (vision_route e body) = [SdkSend p]
                 \<and> params_messages p =
                     [Message ''user'' (Parts [TextPart (the (prompt body)), ImageUrlPart u])]))"
proof -
  let ?m = "[Message ''user'' (Parts [TextPart (the (prompt body)), ImageUrlPart u])]"
  let ?r = "\<lparr>messages = ?m, tier = the (vision_tier body), stream = None, maxTokens = None\<rparr>"
  from assms have m: "vision_messages body = ?m" by (simp add: vision_messages_def)
  from assms have route: "vision_route e body =
              (case multimodalAnalysis e ?r of
                 (Inl err, calls) \<Rightarrow>
                   ([Status 500,
                     Json (ErrorMessage ''Vision analysis failed'' (message err))], calls)
               | (Inr response, calls) \<Rightarrow>
                   ([Json (VisionResult response (Date_now e 1 - Date_now e 0)
                            (the (vision_tier body)) ''image'')], calls))"
    if "truthy_string (prompt body) \<and> truthy_string (vision_tier body)"
    using that by (simp add: vision_route_def m Let_def)
  have sent: "\<exists>p. snd (vision_route e body) = [SdkSend p] \<and> params_messages p = ?m"
    if "truthy_string (prompt body) \<and> truthy_string (vision_tier body) \<and> getClient e = Inr ()"
  proof -
    from that have "snd (multimodalAnalysis e ?r) = [SdkSend (vision_params ?r)]"
      by (simp add: multimodalAnalysis_sends)
    with route that have "snd (vision_route e body) = [SdkSend (vision_params ?r)]"
      by (simp add: case_prod_unfold split: sum.splits)
    then show ?thesis by (simp add: vision_params_def)
  qed
  from assms have "vision_messages (body\<lparr>imageBase64 := b\<rparr>) = vision_messages body"
    and "vision_route e (body\<lparr>imageBase64 := b\<rparr>) = vision_route e body"
    by (simp_all add: vision_route_def vision_messages_def split: prod.splits sum.splits)
  with m route sent show ?thesis by blast
qed

text \<open>
  C9, at a concrete gateway and request.
\<close>

theorem vision_prefers_imageUrl_witness:
  "imageUrl vision_example = Some ''https://example.org/cat.png''
   \<and> imageBase64 vision_example = Some ''data:image/png;base64,AAAA''
   \<and> vision_messages vision_example =
       [Message ''user'' (Parts [TextPart ''What is in this image?'',
                                ImageUrlPart ''https://example.org/cat.png''])]
   \<and> vision_route sdk_down (vision_example\<lparr>imageBase64 := None\<rparr>)
       = vision_route sdk_down vision_example
   \<and> truthy_string (prompt vision_example) \<and> truthy_string (vision_tier vision_example)
   \<and> getClient sdk_down = Inr ()
   \<and> (\<exists>p. snd (vision_route sdk_down vision_example) = [SdkSend p]
         \<and> params_messages p =
             [Message ''user'' (Parts [TextPart ''What is in this image?'',
                                      ImageUrlPart ''https://example.org/cat.png''])])"
proof -
  have u: "imageUrl vision_example = Some ''https://example.org/cat.png''"
    and b: "imageBase64 vision_example = Some ''data:image/png;base64,AAAA''"
    and p: "prompt vision_example = Some ''What is in this image?''"
    and t: "truthy_string (vision_tier vision_example)"
    by (simp_all add: vision_example_def)
  have g: "getClient sdk_down = Inr ()"
    by (simp add: getClient_def sdk_down_def example_env_def)
  have tp: "truthy_string (prompt vision_example)" by (simp add: p)
  have ne: "''https://example.org/cat.png'' \<noteq> []" by simp
  note at_example = vision_prefers_imageUrl [OF u ne, of None sdk_down]
  from at_example have m: "vision_messages vision_example =
       [Message ''user'' (Parts [TextPart (the (prompt vision_example)),
                                ImageUrlPart ''https://example.org/cat.png''])]"
    by (rule conjunct1)
  from at_example have r: "vision_route sdk_down (vision_example\<lparr>imageBase64 := None\<rparr>)
       = vision_route sdk_down vision_example"
    by blast
  from at_example tp t g have "\<exists>p. snd (vision_route sdk_down vision_example) = [SdkSend p]
         \<and> params_messages p =
             [Message ''user'' (Parts [TextPart (the (prompt vision_example)),
                                      ImageUrlPart ''https://example.org/cat.png''])]"
    by blast
  with m r u b tp t g show ?thesis by (simp add: p)
qed

subsection \<open>A zero token bound\<close>

text \<open>
  C10. A bound of 0 is treated as absent: each capability substitutes its default (4000 for
  code, 2000 for analysis, 3000 for generation, 2000 for vision). A code generation issues
  at least one call and every call carries 4000, likewise analysis with 2000 and generation
  with 3000; the vision call carries 2000; a chat dispatch issues at least one call and none
  carries a bound.
\<close>

theorem zero_bound_is_absent:
  assumes "maxTokens request = Some 0"
  shows "maxTokens (code_request request) = Some 4000
       \<and> maxTokens (analysis_request request) = Some 2000
       \<and> maxTokens (generation_request request) = Some 3000
       \<and> params_maxTokens (vision_params request) = Some 2000
       \<and> (\<forall>c\<in>set (snd (codeGeneration e request)). call_bound c = Some 4000)
       \<and> (\<forall>c\<in>set (snd (chatCompletion e request)). call_bound c = None)
       \<and> snd (codeGeneration e request) \<noteq> []
       \<and> snd (chatCompletion e request) \<noteq> []
       \<and> (\<forall>c\<in>set (snd (textAnalysis e request)). call_bound c = Some 2000)
       \<and> snd (textAnalysis e request) \<noteq> []
       \<and> (\<forall>c\<in>set (snd (contentGeneration e request)). call_bound c = Some 3000)
       \<and> snd (contentGeneration e request) \<noteq> []
       \<and> (\<forall>c\<in>set (snd (multimodalAnalysis e request)). call_bound c = Some 2000)
       \<and> (getClient e = Inr () \<longrightarrow>
            snd (multimodalAnalysis e request) = [SdkSend (vision_params request)])"
proof -
  have "\<forall>c\<in>set (snd (chatCompletion e request)). call_bound c = None"
    using assms by (simp add: chatCompletion_bound spread_maxTokens_def)
  moreover have "\<forall>c\<in>set (snd (codeGeneration e request)). call_bound c = Some 4000"
    using assms
    by (simp add: codeGeneration_def chatCompletion_bound code_request_def
        spread_maxTokens_def or_number_def Let_def)
  moreover have "\<forall>c\<in>set (snd (textAnalysis e request)). call_bound c = Some 2000"
    using assms
    by (simp add: textAnalysis_def chatCompletion_bound analysis_request_def
        spread_maxTokens_def or_number_def Let_def)
  moreover have "\<forall>c\<in>set (snd (contentGeneration e request)). call_bound c = Some 3000"
    using assms
    by (simp add: contentGeneration_def chatCompletion_bound generation_request_def
        spread_maxTokens_def or_number_def Let_def)
  moreover have "\<forall>c\<in>set (snd (multimodalAnalysis e request)). call_bound c = Some 2000"
    using assms by (simp add: multimodalAnalysis_bound or_number_def)
  moreover have "snd (codeGeneration e request) \<noteq> []" "snd (textAnalysis e request) \<noteq> []"
    "snd (contentGeneration e request) \<noteq> []"
    by (simp_all add: codeGeneration_def textAnalysis_def contentGeneration_def
        chatCompletion_sends)
  ultimately show ?thesis using assms
    by (simp add: code_request_def analysis_request_def generation_request_def
        vision_params_def or_number_def Let_def chatCompletion_sends multimodalAnalysis_sends)
qed

text \<open>
  C10, at a concrete gateway and request.
\<close>

theorem zero_bound_is_absent_witness:
  "maxTokens (example_request ''premium''\<lparr>maxTokens := Some 0\<rparr>) = Some 0
   \<and> maxTokens (code_request (example_request ''premium''\<lparr>maxTokens := Some 0\<rparr>)) = Some 4000
   \<and> list_all (\<lambda>c. call_bound c = Some 4000)
         (snd (codeGeneration sdk_down (example_request ''premium''\<lparr>maxTokens := Some 0\<rparr>)))
   \<and> list_all (\<lambda>c. call_bound c = None)
         (snd (chatCompletion sdk_down (example_request ''premium''\<lparr>maxTokens := Some 0\<rparr>)))
   \<and> snd (codeGeneration sdk_down (example_request ''premium''\<lparr>maxTokens := Some 0\<rparr>)) \<noteq> []
   \<and> call_bound (hd (snd (codeGeneration sdk_down
         (example_request ''premium''\<lparr>maxTokens := Some 0\<rparr>)))) = Some 4000
   \<and> snd (chatCompletion sdk_down (example_request ''premium''\<lparr>maxTokens := Some 0\<rparr>)) \<noteq> []
   \<and> call_bound (hd (snd (chatCompletion sdk_down
         (example_request ''premium''\<lparr>maxTokens := Some 0\<rparr>)))) = None"
proof -
  let ?R = "example_request ''premium''\<lparr>maxTokens := Some 0\<rparr>"
  have z: "maxTokens ?R = Some 0" by simp
  note at_example = zero_bound_is_absent [OF z, of sdk_down]
  from at_example have code: "\<forall>c\<in>set (snd (codeGeneration sdk_down ?R)). call_bound c = Some 4000"
    and chat: "\<forall>c\<in>set (snd (chatCompletion sdk_down ?R)). call_bound c = None"
    and code_sent: "snd (codeGeneration sdk_down ?R) \<noteq> []"
    and chat_sent: "snd (chatCompletion sdk_down ?R) \<noteq> []"
    and subst: "maxTokens (code_request ?R) = Some 4000"
    by blast+
  from code code_sent have "call_bound (hd (snd (codeGeneration sdk_down ?R))) = Some 4000"
    by simp
  moreover from chat chat_sent have "call_bound (hd (snd (chatCompletion sdk_down ?R))) = None"
    by simp
  ultimately show ?thesis using z code chat code_sent chat_sent subst
    by (simp add: list_all_iff)
qed

end
